theory Spec2Isabelle
  imports Main "HOL-Library.Word"
begin

section \<open>Basic types\<close>

text \<open>
  Go's \<open>int32\<close> and \<open>int64\<close> are machine words: \<open>-\<close> and \<open>+\<close> wrap, \<open>sint\<close> reads the
  two's-complement value that the comparisons \<open>c.expectResults <= 0\<close> and
  \<open>c.tolerantNotFounds > 0\<close> of the source look at.
\<close>

type_synonym int32 = "32 word"
type_synonym int64 = "64 word"
type_synonym bytes = "8 word list"

text \<open>\<open>strings.Contains(s, substr)\<close>: \<open>substr\<close> occurs in \<open>s\<close> at some offset.\<close>

fun Contains :: "string \<Rightarrow> string \<Rightarrow> bool" where
  "Contains [] substr = (substr = [])"
| "Contains (c # s) substr = (take (length substr) (c # s) = substr \<or> Contains s substr)"

section \<open>Unbuffered channels\<close>

text \<open>
  An unbuffered Go channel as seen from its sending side. \<open>received\<close> is what the
  consumer has taken out so far, oldest first. A send inside
  \<open>select { case ch <- v: ... default: ... }\<close> goes through exactly when a receiver is
  blocked on the channel at that moment; whether one is, is an input of the model (the
  flag \<open>waiting\<close>). Sending on a closed channel and closing a closed channel panic in Go,
  and so they do here.
\<close>

record 'a chan =
  received :: "'a list"
  chan_closed :: bool

datatype panic = SendOnClosedChannel | CloseOfClosedChannel

definition make_chan :: "'a chan" where
  "make_chan = \<lparr>received = [], chan_closed = False\<rparr>"

definition try_send :: "bool \<Rightarrow> 'a \<Rightarrow> 'a chan \<Rightarrow> panic + (bool \<times> 'a chan)" where
  "try_send waiting v ch =
     (if chan_closed ch then Inl SendOnClosedChannel
      else if waiting then Inr (True, ch\<lparr>received := received ch @ [v]\<rparr>)
      else Inr (False, ch))"

definition close_chan :: "'a chan \<Rightarrow> panic + 'a chan" where
  "close_chan ch =
     (if chan_closed ch then Inl CloseOfClosedChannel
      else Inr (ch\<lparr>chan_closed := True\<rparr>))"

section \<open>Wire messages\<close>

datatype TaskType_pb = TaskType_UNKNOWN | TaskType_Intermediate | TaskType_Leaf

datatype RequestType_pb = RequestType_Data | RequestType_Metadata

text \<open>
  The fields of \<open>TaskRequest\<close> named \<open>Type\<close>, \<open>PhysicalPlan\<close> and \<open>Payload\<close> in the
  source carry the prefix \<open>Req\<close> here, apart from the response's fields of the same names.
\<close>

record TaskRequest =
  RequestID :: string
  ParentTaskID :: string
  ReqType :: TaskType_pb
  RequestType :: RequestType_pb
  ReqPhysicalPlan :: bytes
  ReqPayload :: bytes

record TaskResponse =
  TaskID :: string
  Type :: TaskType_pb
  ErrMsg :: string
  Payload :: bytes
  Stats :: bytes

record AggregatorSpec_pb =
  FieldName :: string
  FieldType :: "32 word"
  FuncTypeList :: "32 word list"

record TimeSeries =
  Tags :: string
  Fields :: "string \<rightharpoonup> bytes"

record TimeSeriesList_pb =
  FieldAggSpecs :: "AggregatorSpec_pb list"
  TimeSeriesList :: "TimeSeries list"

section \<open>Collaborators of the task contexts\<close>

text \<open>
  Modelled from the spec: \<open>stmt.Query\<close> is not under src; the contexts read only its
  \<open>Interval\<close> and \<open>TimeRange\<close>, which they hand to the grouping aggregator.
\<close>

record Query =
  Interval :: int
  TimeRange :: "int \<times> int"

text \<open>
  Modelled from the spec: the \<open>aggregation\<close> package is not under src. The spec gives
  the grouping aggregator three operations (constructor, \<open>Aggregate\<close>, \<open>ResultSet\<close>)
  and leaves its storage open, so an aggregator is kept as the arguments it was built with
  and the grouped iterators handed to \<open>Aggregate\<close>, in call order. The result type of
  \<open>ResultSet\<close> is of no concern to the contexts: they pass it on.
\<close>

record AggregatorSpec =
  specFieldName :: string
  specFieldType :: "32 word"
  specFunctions :: "32 word list"

definition NewAggregatorSpec :: "string \<Rightarrow> 32 word \<Rightarrow> AggregatorSpec" where
  "NewAggregatorSpec name ftype =
     \<lparr>specFieldName = name, specFieldType = ftype, specFunctions = []\<rparr>"

definition AddFunctionType :: "32 word \<Rightarrow> AggregatorSpec \<Rightarrow> AggregatorSpec" where
  "AddFunctionType funcType spec = spec\<lparr>specFunctions := specFunctions spec @ [funcType]\<rparr>"

record GroupedIterator =
  itTags :: string
  itFields :: "string \<rightharpoonup> bytes"

definition NewGroupedIterator :: "string \<Rightarrow> (string \<rightharpoonup> bytes) \<Rightarrow> GroupedIterator" where
  "NewGroupedIterator tags flds = \<lparr>itTags = tags, itFields = flds\<rparr>"

record GroupingAggregator =
  aggInterval :: int
  aggIntervalRatio :: int
  aggTimeRange :: "int \<times> int"
  aggSpecs :: "AggregatorSpec list"
  aggregated :: "GroupedIterator list"

definition newGroupingAgg ::
  "int \<Rightarrow> int \<Rightarrow> int \<times> int \<Rightarrow> AggregatorSpec list \<Rightarrow> GroupingAggregator" where
  "newGroupingAgg interval ratio timeRange specs =
     \<lparr>aggInterval = interval, aggIntervalRatio = ratio, aggTimeRange = timeRange,
      aggSpecs = specs, aggregated = []\<rparr>"

definition Aggregate :: "GroupedIterator \<Rightarrow> GroupingAggregator \<Rightarrow> GroupingAggregator" where
  "Aggregate it g = g\<lparr>aggregated := aggregated g @ [it]\<rparr>"

text \<open>
  Modelled from the spec: \<open>models.QueryStats\<close> is not under src. The fields the
  context writes are kept; the per-node merges of \<open>MergeBrokerTaskStats\<close> and
  \<open>MergeLeafTaskStats\<close> are kept as the raw statistics received from each node, in
  arrival order.
\<close>

record QueryStats =
  Start :: int
  End :: int
  TotalCost :: int
  NetPayload :: int
  BrokerNodes :: "(string \<times> bytes) list"
  LeafNodes :: "(string \<times> bytes \<times> int) list"

definition NewQueryStats :: QueryStats where
  "NewQueryStats = \<lparr>Start = 0, End = 0, TotalCost = 0, NetPayload = 0,
     BrokerNodes = [], LeafNodes = []\<rparr>"

definition MergeBrokerTaskStats :: "string \<Rightarrow> bytes \<Rightarrow> QueryStats \<Rightarrow> QueryStats" where
  "MergeBrokerTaskStats fromNode raw s = s\<lparr>BrokerNodes := BrokerNodes s @ [(fromNode, raw)]\<rparr>"

definition MergeLeafTaskStats :: "string \<Rightarrow> bytes \<Rightarrow> int \<Rightarrow> QueryStats \<Rightarrow> QueryStats" where
  "MergeLeafTaskStats fromNode raw netPayload s =
     s\<lparr>LeafNodes := LeafNodes s @ [(fromNode, raw, netPayload)]\<rparr>"

text \<open>
  Modelled from the spec: \<open>models.PhysicalPlan\<close> is not under src. The spec's data model
  gives it a root with its indicator and \<open>NumOfTask\<close>, and the indicators of the
  intermediate and of the leaf nodes.
\<close>

record RootNode =
  Indicator :: string
  NumOfTask :: int32

record PhysicalPlan =
  Root :: RootNode
  Intermediates :: "string list"
  Leaves :: "string list"

text \<open>
  What the code takes from packages that are not under src: the protobuf decoder of a
  payload (\<open>tsList.Unmarshal\<close>, \<open>Inl\<close> its error message), the aggregator's
  \<open>ResultSet\<close>, and the JSON encoders of the plan (\<open>encoding.JSONMarshal\<close>) and of the
  statement (\<open>stmtQuery.MarshalJSON\<close>).
\<close>

record 'r externals =
  Unmarshal :: "bytes \<Rightarrow> string + TimeSeriesList_pb"
  ResultSet :: "GroupingAggregator \<Rightarrow> 'r"
  JSONMarshal :: "PhysicalPlan \<Rightarrow> bytes"
  MarshalJSON :: "Query \<Rightarrow> bytes"

text \<open>
  What one \<open>WriteResponse\<close> call reads from its surroundings: whether the consumer is
  blocked on the channel when the call sends, the clock (\<open>time.Now().UnixNano()\<close>) and the
  time the payload handling took (\<open>time.Since(start).Nanoseconds()\<close>).
\<close>

record moment =
  readerWaiting :: bool
  nowNano :: int
  sinceStart :: int

section \<open>Task contexts\<close>

datatype TaskType = RootTask | IntermediateTask

text \<open>
  \<open>baseTaskContext\<close>. The mutex \<open>mu\<close> makes every \<open>WriteResponse\<close> and \<open>Done\<close> one
  atomic step, which is what a function on the context is; the \<open>context.Context\<close> handle
  takes no part in these methods. The three \<open>WriteResponse\<close> methods are
  \<open>ack_WriteResponse\<close>, \<open>metric_WriteResponse\<close> and \<open>metaData_WriteResponse\<close> here,
  and each returns the panic instead of the context where the Go method would panic.
\<close>

record baseTaskContext =
  createTime :: int
  taskID :: string
  taskType :: TaskType
  parentTaskID :: string
  parentNode :: string
  expectResults :: int32
  closed :: bool

definition Expired :: "int \<Rightarrow> int \<Rightarrow> 'a baseTaskContext_scheme \<Rightarrow> bool" where
  "Expired nowMs ttlMs c = (nowMs - createTime c > ttlMs)"

definition Done :: "'a baseTaskContext_scheme \<Rightarrow> bool" where
  "Done c = (sint (expectResults c) \<le> 0)"

subsection \<open>intermediateAckTaskContext\<close>

text \<open>The channel carries Go \<open>error\<close> values: \<open>None\<close> is \<open>nil\<close>.\<close>

record intermediateAckTaskContext = baseTaskContext +
  ackEventCh :: "string option chan"

definition newIntermediateAckTaskContext ::
  "int \<Rightarrow> string \<Rightarrow> TaskType \<Rightarrow> int32 \<Rightarrow> string option chan \<Rightarrow> intermediateAckTaskContext" where
  "newIntermediateAckTaskContext nowMs tid ttype expect ch =
     \<lparr>createTime = nowMs, taskID = tid, taskType = ttype, parentTaskID = [],
      parentNode = [], expectResults = expect, closed = False, ackEventCh = ch\<rparr>"

text \<open>
  The deferred function of \<open>WriteResponse\<close>: it runs on every return after the
  \<open>defer\<close> statement, and closes the channel only when \<open>expectResults\<close> is at or below
  zero.
\<close>

definition ack_deferred :: "intermediateAckTaskContext \<Rightarrow> panic + intermediateAckTaskContext" where
  "ack_deferred c =
     (if sint (expectResults c) \<le> 0 then
        (case close_chan (ackEventCh c) of
           Inl p \<Rightarrow> Inl p
         | Inr ch \<Rightarrow> Inr (c\<lparr>closed := True, ackEventCh := ch\<rparr>))
      else Inr c)"

definition ack_WriteResponse ::
  "bool \<Rightarrow> TaskResponse \<Rightarrow> intermediateAckTaskContext \<Rightarrow> panic + intermediateAckTaskContext" where
  "ack_WriteResponse waiting resp c0 =
     (let c = c0\<lparr>expectResults := expectResults c0 - 1\<rparr> in
      if closed c then Inr c
      else if ErrMsg resp \<noteq> [] then
        (case try_send waiting (Some (ErrMsg resp)) (ackEventCh c) of
           Inl p \<Rightarrow> Inl p
         | Inr (_, ch) \<Rightarrow> ack_deferred (c\<lparr>ackEventCh := ch\<rparr>))
      else if 0 < sint (expectResults c) then ack_deferred c
      else
        (case try_send waiting None (ackEventCh c) of
           Inl p \<Rightarrow> Inl p
         | Inr (_, ch) \<Rightarrow> ack_deferred (c\<lparr>ackEventCh := ch\<rparr>)))"

subsection \<open>metricTaskContext\<close>

text \<open>
  \<open>series.TimeSeriesEvent\<close>, by the fields the context sets; \<open>None\<close> is a field left
  \<open>nil\<close>. The event holds the statistics as they are when it is sent.
\<close>

record 'r TimeSeriesEvent =
  AggregatorSpecs :: "(string \<rightharpoonup> AggregatorSpec_pb) option"
  SeriesList :: "'r option"
  EventStats :: "QueryStats option"
  Err :: "string option"

record 'r metricTaskContext = baseTaskContext +
  eventCh :: "'r TimeSeriesEvent chan"
  stmtQuery :: Query
  groupAgg :: "GroupingAggregator option"
  stats :: "QueryStats option"
  aggregatorSpecs :: "string \<rightharpoonup> AggregatorSpec_pb"
  tolerantNotFounds :: int32
  startTime :: int

definition newMetricTaskContext ::
  "int \<Rightarrow> int \<Rightarrow> string \<Rightarrow> TaskType \<Rightarrow> string \<Rightarrow> string \<Rightarrow> Query \<Rightarrow> int32 \<Rightarrow>
   'r TimeSeriesEvent chan \<Rightarrow> 'r metricTaskContext" where
  "newMetricTaskContext nowMs now tid ttype ptid pnode q expect ch =
     \<lparr>createTime = nowMs, taskID = tid, taskType = ttype, parentTaskID = ptid,
      parentNode = pnode, expectResults = expect, closed = False,
      eventCh = ch, stmtQuery = q, groupAgg = None, stats = None,
      aggregatorSpecs = Map.empty, tolerantNotFounds = expect, startTime = now\<rparr>"

definition checkError ::
  "string \<Rightarrow> 'r metricTaskContext \<Rightarrow> (bool \<times> string option) \<times> 'r metricTaskContext" where
  "checkError errMsg c =
     (if errMsg = [] then ((False, None), c)
      else if \<not> Contains errMsg ''not found'' then ((True, Some errMsg), c)
      else
        (let c' = c\<lparr>tolerantNotFounds := tolerantNotFounds c - 1\<rparr> in
         if 0 < sint (tolerantNotFounds c') then ((True, None), c')
         else ((True, Some errMsg), c')))"

definition handleStats ::
  "TaskResponse \<Rightarrow> string \<Rightarrow> 'r metricTaskContext \<Rightarrow> 'r metricTaskContext" where
  "handleStats resp fromNode c =
     (if length (Stats resp) = 0 then c
      else
        (let s = (case stats c of
                    None \<Rightarrow> NewQueryStats\<lparr>Start := startTime c\<rparr>
                  | Some s0 \<Rightarrow> s0) in
         case Type resp of
           TaskType_Intermediate \<Rightarrow>
             c\<lparr>stats := Some (MergeBrokerTaskStats fromNode (Stats resp) s)\<rparr>
         | _ \<Rightarrow>
             (let netPayload = int (length (Stats resp) + length (Payload resp));
                  s' = MergeLeafTaskStats fromNode (Stats resp) netPayload s
              in c\<lparr>stats := Some (s'\<lparr>NetPayload := NetPayload s' + netPayload\<rparr>)\<rparr>)))"

text \<open>The loop \<open>for _, spec := range tsList.FieldAggSpecs\<close> that registers the specs.\<close>

fun registerSpecs ::
  "AggregatorSpec_pb list \<Rightarrow> (string \<rightharpoonup> AggregatorSpec_pb) \<Rightarrow> (string \<rightharpoonup> AggregatorSpec_pb)" where
  "registerSpecs [] m = m"
| "registerSpecs (spec # specs) m = registerSpecs specs (m(FieldName spec \<mapsto> spec))"

text \<open>The specs the aggregator is built from, one per entry of \<open>FieldAggSpecs\<close>.\<close>

definition toAggregatorSpec :: "AggregatorSpec_pb \<Rightarrow> AggregatorSpec" where
  "toAggregatorSpec aggSpec =
     fold AddFunctionType (FuncTypeList aggSpec)
       (NewAggregatorSpec (FieldName aggSpec) (FieldType aggSpec))"

text \<open>
  The loop over \<open>tsList.TimeSeriesList\<close>: a series without field data leaves the loop (and
  the function, with \<open>nil\<close>); every series before it has been aggregated by then.
\<close>

fun aggregateSeries :: "TimeSeries list \<Rightarrow> GroupingAggregator \<Rightarrow> GroupingAggregator" where
  "aggregateSeries [] g = g"
| "aggregateSeries (ts # rest) g =
     (if Fields ts = Map.empty then g
      else aggregateSeries rest (Aggregate (NewGroupedIterator (Tags ts) (Fields ts)) g))"

text \<open>The deferred \<open>c.stats.TotalCost = time.Since(start).Nanoseconds()\<close>.\<close>

definition recordCost :: "moment \<Rightarrow> 'r metricTaskContext \<Rightarrow> 'r metricTaskContext" where
  "recordCost mo c =
     (case stats c of
        None \<Rightarrow> c
      | Some s \<Rightarrow> c\<lparr>stats := Some (s\<lparr>TotalCost := sinceStart mo\<rparr>)\<rparr>)"

definition handleTaskResponse ::
  "'r externals \<Rightarrow> moment \<Rightarrow> TaskResponse \<Rightarrow> string \<Rightarrow> 'r metricTaskContext \<Rightarrow>
   string option \<times> 'r metricTaskContext" where
  "handleTaskResponse ext mo resp fromNode c0 =
     (let c1 = handleStats resp fromNode c0;
          ((ignoreResponse, err), c2) = checkError (ErrMsg resp) c1
      in
      if err \<noteq> None then (err, c2)
      else if ignoreResponse then (None, c2)
      else
        (case Unmarshal ext (Payload resp) of
           Inl e \<Rightarrow> (Some e, recordCost mo c2)
         | Inr tsList \<Rightarrow>
             if length (FieldAggSpecs tsList) = 0 then (None, recordCost mo c2)
             else
               (let c3 = c2\<lparr>aggregatorSpecs :=
                            registerSpecs (FieldAggSpecs tsList) (aggregatorSpecs c2)\<rparr>;
                    g = (case groupAgg c3 of
                           None \<Rightarrow> newGroupingAgg (Interval (stmtQuery c3)) 1
                                    (TimeRange (stmtQuery c3))
                                    (map toAggregatorSpec (FieldAggSpecs tsList))
                         | Some g0 \<Rightarrow> g0);
                    c4 = c3\<lparr>groupAgg := Some (aggregateSeries (TimeSeriesList tsList) g)\<rparr>
                in (None, recordCost mo c4))))"

definition metric_deferred :: "'r metricTaskContext \<Rightarrow> panic + 'r metricTaskContext" where
  "metric_deferred c =
     (if sint (expectResults c) \<le> 0 then
        (case close_chan (eventCh c) of
           Inl p \<Rightarrow> Inl p
         | Inr ch \<Rightarrow> Inr (c\<lparr>closed := True, eventCh := ch\<rparr>))
      else Inr c)"

definition errorEvent :: "string \<Rightarrow> 'r metricTaskContext \<Rightarrow> 'r TimeSeriesEvent" where
  "errorEvent e c =
     \<lparr>AggregatorSpecs = None, SeriesList = None, EventStats = stats c, Err = Some e\<rparr>"

definition resultEvent :: "'r externals \<Rightarrow> 'r metricTaskContext \<Rightarrow> 'r TimeSeriesEvent" where
  "resultEvent ext c =
     \<lparr>AggregatorSpecs = Some (aggregatorSpecs c),
      SeriesList = (case groupAgg c of None \<Rightarrow> None | Some g \<Rightarrow> Some (ResultSet ext g)),
      EventStats = stats c, Err = None\<rparr>"

definition metric_WriteResponse ::
  "'r externals \<Rightarrow> moment \<Rightarrow> TaskResponse \<Rightarrow> string \<Rightarrow> 'r metricTaskContext \<Rightarrow>
   panic + 'r metricTaskContext" where
  "metric_WriteResponse ext mo resp fromNode c0 =
     (let c = c0\<lparr>expectResults := expectResults c0 - 1\<rparr> in
      if closed c then Inr c
      else
        (case handleTaskResponse ext mo resp fromNode c of
           (Some e, c1) \<Rightarrow>
             (case try_send (readerWaiting mo) (errorEvent e c1) (eventCh c1) of
                Inl p \<Rightarrow> Inl p
              | Inr (_, ch) \<Rightarrow> metric_deferred (c1\<lparr>eventCh := ch\<rparr>))
         | (None, c1) \<Rightarrow>
             if 0 < sint (expectResults c1) then metric_deferred c1
             else
               (let c2 = (case stats c1 of
                            None \<Rightarrow> c1
                          | Some s \<Rightarrow> c1\<lparr>stats := Some (s\<lparr>End := nowNano mo\<rparr>)\<rparr>)
                in case try_send (readerWaiting mo) (resultEvent ext c2) (eventCh c2) of
                     Inl p \<Rightarrow> Inl p
                   | Inr (_, ch) \<Rightarrow> metric_deferred (c2\<lparr>eventCh := ch\<rparr>))))"

subsection \<open>metaDataTaskContext\<close>

record metaDataTaskContext = baseTaskContext +
  taskResponseCh :: "TaskResponse chan"

definition newMetaDataTaskContext ::
  "int \<Rightarrow> string \<Rightarrow> TaskType \<Rightarrow> string \<Rightarrow> string \<Rightarrow> int32 \<Rightarrow> TaskResponse chan \<Rightarrow>
   metaDataTaskContext" where
  "newMetaDataTaskContext nowMs tid ttype ptid pnode expect ch =
     \<lparr>createTime = nowMs, taskID = tid, taskType = ttype, parentTaskID = ptid,
      parentNode = pnode, expectResults = expect, closed = False, taskResponseCh = ch\<rparr>"

definition metaData_WriteResponse ::
  "bool \<Rightarrow> TaskResponse \<Rightarrow> metaDataTaskContext \<Rightarrow> panic + metaDataTaskContext" where
  "metaData_WriteResponse waiting resp c0 =
     (let c = c0\<lparr>expectResults := expectResults c0 - 1\<rparr> in
      if closed c then Inr c
      else
        (case try_send waiting resp (taskResponseCh c) of
           Inl p \<Rightarrow> Inl p
         | Inr (True, ch) \<Rightarrow>
             if sint (expectResults c) \<le> 0 then
               (case close_chan ch of
                  Inl p \<Rightarrow> Inl p
                | Inr ch' \<Rightarrow> Inr (c\<lparr>closed := True, taskResponseCh := ch'\<rparr>))
             else Inr (c\<lparr>taskResponseCh := ch\<rparr>)
         | Inr (False, ch) \<Rightarrow> Inr c))"

subsection \<open>The TaskContext interface\<close>

text \<open>
  The \<open>TaskContext\<close> interface has three implementations; a call of an interface method
  goes to the method of the variant at hand.
\<close>
datatype 'r TaskContext =
    IntermediateAckCtx intermediateAckTaskContext
  | MetricCtx "'r metricTaskContext"
  | MetaDataCtx metaDataTaskContext

text \<open>\<open>WriteResponse\<close> through the interface.\<close>
definition WriteResponse ::
  "'r externals \<Rightarrow> moment \<Rightarrow> TaskResponse \<Rightarrow> string \<Rightarrow> 'r TaskContext \<Rightarrow>
   panic + 'r TaskContext" where
  "WriteResponse ext mo resp fromNode tc =
     (case tc of
        IntermediateAckCtx c \<Rightarrow>
          map_sum id IntermediateAckCtx (ack_WriteResponse (readerWaiting mo) resp c)
      | MetricCtx c \<Rightarrow> map_sum id MetricCtx (metric_WriteResponse ext mo resp fromNode c)
      | MetaDataCtx c \<Rightarrow>
          map_sum id MetaDataCtx (metaData_WriteResponse (readerWaiting mo) resp c))"

text \<open>\<open>Done()\<close> through the interface.\<close>
definition isDone :: "'r TaskContext \<Rightarrow> bool" where
  "isDone tc =
     (case tc of IntermediateAckCtx c \<Rightarrow> Done c | MetricCtx c \<Rightarrow> Done c
      | MetaDataCtx c \<Rightarrow> Done c)"

section \<open>The task manager\<close>

text \<open>
  Modelled from the spec: \<open>metrics.BrokerQueryStatistics\<close> is not under src; its
  counters move by one with \<open>Incr\<close> and \<open>Decr\<close>.
\<close>
record BrokerQueryStatistics =
  CreatedTasks :: int
  AliveTask :: int
  ExpireTasks :: int
  EmitResponse :: int
  OmitResponse :: int
  SentRequest :: int
  SentRequestFailures :: int
  SentResponses :: int
  SentResponseFailures :: int

definition NewBrokerQueryStatistics :: BrokerQueryStatistics where
  "NewBrokerQueryStatistics =
     \<lparr>CreatedTasks = 0, AliveTask = 0, ExpireTasks = 0, EmitResponse = 0, OmitResponse = 0,
      SentRequest = 0, SentRequestFailures = 0, SentResponses = 0, SentResponseFailures = 0\<rparr>"

text \<open>
  The Go \<open>error\<close> values the manager returns: \<open>query.ErrNoSendStream\<close> and
  \<open>query.ErrTaskSend\<close> wrapped with the target node, \<open>ErrTimeout\<close>, the "missing acks
  from intermdiate nodes" of a closed ack channel, an error received from the ack channel
  (made of a response's \<open>ErrMsg\<close>), and the "TaskID: ... may be evicted" of \<open>Receive\<close>
  with the task id.
\<close>
datatype error =
    ErrNoSendStream string
  | ErrTaskSend string
  | ErrTimeout
  | ErrMissingAcks
  | ErrAck string
  | ErrMayBeEvicted string

text \<open>
  Task contexts are heap objects: the task table and the closures handed to the worker
  pool hold pointers to them.
\<close>
type_synonym ref = nat

text \<open>The closure that \<open>Receive\<close> hands to the worker pool, by what it captures.\<close>
datatype poolTask = ReceiveTask ref TaskResponse string

text \<open>
  \<open>taskManager\<close>. Beside the fields of the struct, the record holds the heap of the
  contexts the manager has created (\<open>contexts\<close>, \<open>nextRef\<close>) and the log of the calls of
  \<open>client.Send\<close> on the streams of the client factory, in call order, each with its
  target and with whether it went through (\<open>sent\<close>). A client of the factory is given by
  the outcome of its \<open>Send\<close>; no client is \<open>None\<close>. \<open>workerPool\<close> holds the closures
  submitted for later, in submission order.
\<close>
record 'r taskManager =
  currentNodeID :: string
  seq :: int64
  taskClientFactory :: "string \<Rightarrow> (TaskRequest \<Rightarrow> bool) option"
  workerPool :: "poolTask list"
  tasks :: "string \<rightharpoonup> ref"
  ttl :: int
  statistics :: BrokerQueryStatistics
  contexts :: "ref \<rightharpoonup> 'r TaskContext"
  nextRef :: ref
  sent :: "(string \<times> TaskRequest \<times> bool) list"

definition NewTaskManager ::
  "string \<Rightarrow> (string \<Rightarrow> (TaskRequest \<Rightarrow> bool) option) \<Rightarrow> int \<Rightarrow> 'r taskManager" where
  "NewTaskManager currentNode clientFactory ttlMs =
     \<lparr>currentNodeID = currentNode, seq = 0, taskClientFactory = clientFactory,
      workerPool = [], tasks = Map.empty, ttl = ttlMs,
      statistics = NewBrokerQueryStatistics, contexts = Map.empty, nextRef = 0, sent = []\<rparr>"





definition evictTask :: "string \<Rightarrow> 'r taskManager \<Rightarrow> 'r taskManager" where
  "evictTask tid t =
     (case tasks t tid of
        None \<Rightarrow> t
      | Some _ \<Rightarrow>
          t\<lparr>tasks := (tasks t)(tid := None),
            statistics := (statistics t)\<lparr>AliveTask := AliveTask (statistics t) - 1\<rparr>\<rparr>)"



definition Get :: "string \<Rightarrow> 'r taskManager \<Rightarrow> ref option" where
  "Get tid t = tasks t tid"


text \<open>
  \<open>Receive\<close>: the lookup, the counter and the submission to the pool; the closure runs
  later, on a worker (\<open>runReceiveTask\<close>).
\<close>
definition Receive ::
  "TaskResponse \<Rightarrow> string \<Rightarrow> 'r taskManager \<Rightarrow> error option \<times> 'r taskManager" where
  "Receive resp targetNode t =
     (case Get (TaskID resp) t of
        None \<Rightarrow>
          (Some (ErrMayBeEvicted (TaskID resp)),
           t\<lparr>statistics := (statistics t)
               \<lparr>OmitResponse := OmitResponse (statistics t) + 1\<rparr>\<rparr>)
      | Some taskCtx \<Rightarrow>
          (None,
           t\<lparr>statistics := (statistics t)
               \<lparr>EmitResponse := EmitResponse (statistics t) + 1\<rparr>,
             workerPool := workerPool t @ [ReceiveTask taskCtx resp targetNode]\<rparr>))"

text \<open>
  The body of the closure: \<open>taskCtx.WriteResponse(resp, targetNode)\<close>, then the eviction
  by task id when the context reports \<open>Done()\<close>.
\<close>
definition runReceiveTask ::
  "'r externals \<Rightarrow> moment \<Rightarrow> poolTask \<Rightarrow> 'r taskManager \<Rightarrow> panic + 'r taskManager" where
  "runReceiveTask ext mo task t =
     (case task of
        ReceiveTask taskCtx resp targetNode \<Rightarrow>
          (case contexts t taskCtx of
             None \<Rightarrow> Inr t
           | Some tc \<Rightarrow>
               (case WriteResponse ext mo resp targetNode tc of
                  Inl p \<Rightarrow> Inl p
                | Inr tc' \<Rightarrow>
                    (let t' = t\<lparr>contexts := (contexts t)(taskCtx \<mapsto> tc')\<rparr>
                     in if isDone tc' then Inr (evictTask (TaskID resp) t') else Inr t'))))"

subsection \<open>SubmitMetricTask\<close>











section \<open>Runs and observations\<close>

text \<open>
  What the properties are stated with: the calls a context takes one after the other, as
  its mutex orders them, and what is read off the responses, the contexts and the manager.
\<close>

text \<open>
  The calls of \<open>WriteResponse\<close> on one metric context, in the order the mutex lets them
  in, each with the moment it meets; a panic ends the run.
\<close>
fun metric_WriteResponses ::
  "'r externals \<Rightarrow> (moment \<times> TaskResponse \<times> string) list \<Rightarrow> 'r metricTaskContext \<Rightarrow>
   panic + 'r metricTaskContext" where
  "metric_WriteResponses ext [] c = Inr c"
| "metric_WriteResponses ext ((mo, resp, fromNode) # rest) c =
     (case metric_WriteResponse ext mo resp fromNode c of
        Inl p \<Rightarrow> Inl p
      | Inr c' \<Rightarrow> metric_WriteResponses ext rest c')"

text \<open>A response whose \<open>ErrMsg\<close> contains "not found".\<close>
definition notFoundResponse :: "TaskResponse \<Rightarrow> bool" where
  "notFoundResponse resp = Contains (ErrMsg resp) ''not found''"

text \<open>A response without error message whose payload decodes.\<close>
definition succeedingResponse :: "'r externals \<Rightarrow> TaskResponse \<Rightarrow> bool" where
  "succeedingResponse ext resp =
     (ErrMsg resp = [] \<and> (case Unmarshal ext (Payload resp) of Inl _ \<Rightarrow> False | Inr _ \<Rightarrow> True))"

abbreviation respOf :: "moment \<times> TaskResponse \<times> string \<Rightarrow> TaskResponse" where
  "respOf x \<equiv> fst (snd x)"




text \<open>A response whose payload, if it decodes at all, has no \<open>FieldAggSpecs\<close>.\<close>
definition carriesNoSpecs :: "'r externals \<Rightarrow> TaskResponse \<Rightarrow> bool" where
  "carriesNoSpecs ext resp =
     (case Unmarshal ext (Payload resp) of
        Inl _ \<Rightarrow> True
      | Inr tsList \<Rightarrow> FieldAggSpecs tsList = [])"

text \<open>
  A run in which \<open>handleTaskResponse\<close> returns nil at every call (and no call panics).
\<close>
fun handledWithoutError ::
  "'r externals \<Rightarrow> (moment \<times> TaskResponse \<times> string) list \<Rightarrow> 'r metricTaskContext \<Rightarrow> bool" where
  "handledWithoutError ext [] c = True"
| "handledWithoutError ext ((mo, resp, fromNode) # rest) c =
     (fst (handleTaskResponse ext mo resp fromNode (c\<lparr>expectResults := expectResults c - 1\<rparr>))
        = None \<and>
      (case metric_WriteResponse ext mo resp fromNode c of
         Inl _ \<Rightarrow> False
       | Inr c' \<Rightarrow> handledWithoutError ext rest c'))"

text \<open>
  The invariant of a context that has aggregated nothing: it is open, nothing has been
  received from it, it has neither aggregator nor specs, and it expects \<open>n\<close> responses.
\<close>
definition idle :: "'r metricTaskContext \<Rightarrow> nat \<Rightarrow> bool" where
  "idle c n \<longleftrightarrow>
     \<not> closed c \<and> \<not> chan_closed (eventCh c) \<and> received (eventCh c) = [] \<and>
     groupAgg c = None \<and> aggregatorSpecs c = Map.empty \<and>
     sint (expectResults c) = int n"


text \<open>The \<open>closed\<close> flag of a context of any variant.\<close>
definition closedOf :: "'r TaskContext \<Rightarrow> bool" where
  "closedOf tc =
     (case tc of IntermediateAckCtx c \<Rightarrow> closed c | MetricCtx c \<Rightarrow> closed c
      | MetaDataCtx c \<Rightarrow> closed c)"

text \<open>Whether the channel of the context has been closed.\<close>
definition channelClosedOf :: "'r TaskContext \<Rightarrow> bool" where
  "channelClosedOf tc =
     (case tc of IntermediateAckCtx c \<Rightarrow> chan_closed (ackEventCh c)
      | MetricCtx c \<Rightarrow> chan_closed (eventCh c)
      | MetaDataCtx c \<Rightarrow> chan_closed (taskResponseCh c))"




text \<open>What the properties of the submission read off the log of sends.\<close>
definition leafSends :: "'r taskManager \<Rightarrow> (string \<times> TaskRequest \<times> bool) list" where
  "leafSends t = filter (\<lambda>e. ReqType (fst (snd e)) = TaskType_Leaf) (sent t)"


section \<open>Sample data\<close>

text \<open>
  The concrete plans, responses, contexts and the manager at which the properties are
  evaluated.
\<close>

definition sampleSpec :: AggregatorSpec_pb where
  "sampleSpec = \<lparr>FieldName = ''f'', FieldType = 1, FuncTypeList = [1]\<rparr>"

definition sampleSeries :: TimeSeries where
  "sampleSeries = \<lparr>Tags = ''host=a'', Fields = [''f'' \<mapsto> [7]]\<rparr>"

definition emptySeries :: TimeSeries where
  "emptySeries = \<lparr>Tags = ''host=b'', Fields = Map.empty\<rparr>"

definition sampleUnmarshal :: "bytes \<Rightarrow> string + TimeSeriesList_pb" where
  "sampleUnmarshal p =
     (if p = [] then Inr \<lparr>FieldAggSpecs = [], TimeSeriesList = []\<rparr>
      else if p = [1] then Inr \<lparr>FieldAggSpecs = [sampleSpec], TimeSeriesList = [sampleSeries]\<rparr>
      else if p = [2] then
        Inr \<lparr>FieldAggSpecs = [sampleSpec], TimeSeriesList = [sampleSeries, emptySeries]\<rparr>
      else Inl ''proto: illegal wireType'')"

definition sampleExt :: "GroupedIterator list externals" where
  "sampleExt = \<lparr>Unmarshal = sampleUnmarshal, ResultSet = aggregated,
     JSONMarshal = (\<lambda>plan. map (of_nat \<circ> of_char) (Indicator (Root plan))),
     MarshalJSON = (\<lambda>q. [of_int (Interval q)])\<rparr>"

definition sampleQuery :: Query where
  "sampleQuery = \<lparr>Interval = 10000, TimeRange = (0, 60000)\<rparr>"

definition waitingAt :: "int \<Rightarrow> moment" where
  "waitingAt t = \<lparr>readerWaiting = True, nowNano = t, sinceStart = 5\<rparr>"

definition dataResponse :: "string \<Rightarrow> bytes \<Rightarrow> TaskResponse" where
  "dataResponse tid p =
     \<lparr>TaskID = tid, Type = TaskType_Leaf, ErrMsg = [], Payload = p, Stats = []\<rparr>"

definition errorResponse :: "string \<Rightarrow> string \<Rightarrow> TaskResponse" where
  "errorResponse tid msg =
     \<lparr>TaskID = tid, Type = TaskType_Leaf, ErrMsg = msg, Payload = [], Stats = []\<rparr>"



definition twoExpected :: "GroupedIterator list metricTaskContext" where
  "twoExpected = newMetricTaskContext 0 0 ''b-1'' RootTask [] [] sampleQuery 2 make_chan"

definition emptyResults :: "(moment \<times> TaskResponse \<times> string) list" where
  "emptyResults =
     [(waitingAt 100, dataResponse ''b-1'' [], ''L1''),
      (waitingAt 200, dataResponse ''b-1'' [], ''L2'')]"

definition timeoutResponse :: TaskResponse where
  "timeoutResponse = errorResponse ''b-1'' ''storage: query timeout''"

definition oneMetaDataExpected :: metaDataTaskContext where
  "oneMetaDataExpected = newMetaDataTaskContext 0 ''b-2'' RootTask [] [] 1 make_chan"



definition sampleManager :: "GroupedIterator list taskManager" where
  "sampleManager =
     (NewTaskManager ''b'' (\<lambda>node. if node = ''L1'' then None
                                    else if node = ''L3'' then Some (\<lambda>_. False)
                                    else Some (\<lambda>_. True)) 60000)
       \<lparr>tasks := [''b-1'' \<mapsto> 0], contexts := [0 \<mapsto> MetricCtx twoExpected], nextRef := 1,
        seq := 1\<rparr>"






section \<open>Verified properties\<close>

subsection \<open>Not-found responses of a metric context (C1)\<close>

text \<open>\<open>Contains\<close> is the substring relation.\<close>
lemma Contains_iff: "Contains s sub \<longleftrightarrow> (\<exists>pre suf. s = pre @ sub @ suf)"
proof (induction s)
  case Nil
  then show ?case by auto
next
  case (Cons c s)
  show ?case
  proof
    assume "Contains (c # s) sub"
    then consider "take (length sub) (c # s) = sub" | "Contains s sub" by auto
    then show "\<exists>pre suf. c # s = pre @ sub @ suf"
    proof cases
      case 1
      then have "c # s = [] @ sub @ drop (length sub) (c # s)"
        by (metis append_Nil append_take_drop_id)
      then show ?thesis by blast
    next
      case 2
      with Cons.IH obtain pre suf where "s = pre @ sub @ suf" by blast
      then have "c # s = (c # pre) @ sub @ suf" by simp
      then show ?thesis by blast
    qed
  next
    assume "\<exists>pre suf. c # s = pre @ sub @ suf"
    then obtain pre suf where e: "c # s = pre @ sub @ suf" by blast
    show "Contains (c # s) sub"
    proof (cases pre)
      case Nil
      with e have "take (length sub) (c # s) = sub" by simp
      then show ?thesis by simp
    next
      case (Cons a pre')
      with e have "s = pre' @ sub @ suf" by simp
      with Cons.IH show ?thesis by auto
    qed
  qed
qed

lemma sint_dec32: "- 2147483648 < sint (x::int32) \<Longrightarrow> sint (x - 1) = sint x - 1"
proof -
  assume a: "- 2147483648 < sint x"
  have b: "sint x < 2147483648" using sint_lt [of x] by simp
  have "sint (x - 1) = signed_take_bit 31 (sint x - 1)"
    by (simp add: sint_word_ariths)
  also have "\<dots> = sint x - 1"
    using a b by (intro signed_take_bit_int_eq_self) simp_all
  finally show ?thesis .
qed

lemma handleStats_closed [simp]: "closed (handleStats r n c) = closed c"
  and handleStats_expect [simp]: "expectResults (handleStats r n c) = expectResults c"
  and handleStats_ch [simp]: "eventCh (handleStats r n c) = eventCh c"
  and handleStats_tol [simp]: "tolerantNotFounds (handleStats r n c) = tolerantNotFounds c"
  and handleStats_agg [simp]: "groupAgg (handleStats r n c) = groupAgg c"
  and handleStats_specs [simp]: "aggregatorSpecs (handleStats r n c) = aggregatorSpecs c"
  by (simp_all add: handleStats_def Let_def split: option.splits TaskType_pb.splits)

lemma recordCost_closed [simp]: "closed (recordCost mo c) = closed c"
  and recordCost_expect [simp]: "expectResults (recordCost mo c) = expectResults c"
  and recordCost_ch [simp]: "eventCh (recordCost mo c) = eventCh c"
  and recordCost_tol [simp]: "tolerantNotFounds (recordCost mo c) = tolerantNotFounds c"
  and recordCost_agg [simp]: "groupAgg (recordCost mo c) = groupAgg c"
  and recordCost_specs [simp]: "aggregatorSpecs (recordCost mo c) = aggregatorSpecs c"
  by (simp_all add: recordCost_def split: option.splits)

lemma notFound_nonempty: "notFoundResponse r \<Longrightarrow> ErrMsg r \<noteq> []"
  by (auto simp: notFoundResponse_def)






lemma checkError_frame:
  "checkError m c = (res, c1) \<Longrightarrow>
     closed c1 = closed c \<and> eventCh c1 = eventCh c \<and> expectResults c1 = expectResults c \<and>
     stats c1 = stats c \<and> groupAgg c1 = groupAgg c \<and> aggregatorSpecs c1 = aggregatorSpecs c"
  by (auto simp: checkError_def Let_def split: if_splits)

lemma handle_frame:
  assumes "handleTaskResponse ext mo r n c = (err, c1)"
  shows "closed c1 = closed c \<and> eventCh c1 = eventCh c \<and> expectResults c1 = expectResults c"
proof -
  obtain res c2 where ce: "checkError (ErrMsg r) (handleStats r n c) = (res, c2)"
    by (cases "checkError (ErrMsg r) (handleStats r n c)") auto
  from checkError_frame [OF ce]
  have f: "closed c2 = closed c" "eventCh c2 = eventCh c" "expectResults c2 = expectResults c"
    by simp_all
  obtain ig er where res: "res = (ig, er)" by (cases res) auto
  show ?thesis
    using assms ce f res
    by (auto simp: handleTaskResponse_def Let_def split: if_splits sum.splits)
qed

lemma wr_pending:
  assumes "\<not> closed c"
    and "handleTaskResponse ext mo r n (c\<lparr>expectResults := expectResults c - 1\<rparr>) = (None, c1)"
    and "0 < sint (expectResults c1)"
  shows "metric_WriteResponse ext mo r n c = Inr c1"
  using assms by (simp add: metric_WriteResponse_def Let_def metric_deferred_def)



lemma nf_not_ok: "notFoundResponse r \<Longrightarrow> \<not> succeedingResponse ext r"
  by (auto simp: succeedingResponse_def dest: notFound_nonempty)





lemma run_single:
  "metric_WriteResponses ext [(mo, r, n)] c = metric_WriteResponse ext mo r n c"
  by (simp split: sum.splits)










subsection \<open>A query without results (C10)\<close>

lemma handle_noSpecs:
  assumes "carriesNoSpecs ext r" and "handleTaskResponse ext mo r n c = (err, c1)"
  shows "groupAgg c1 = groupAgg c \<and> aggregatorSpecs c1 = aggregatorSpecs c"
proof -
  obtain res c2 where ce: "checkError (ErrMsg r) (handleStats r n c) = (res, c2)"
    by (cases "checkError (ErrMsg r) (handleStats r n c)") auto
  from checkError_frame [OF ce]
  have f: "groupAgg c2 = groupAgg c" "aggregatorSpecs c2 = aggregatorSpecs c"
    by simp_all
  obtain ig er where res: "res = (ig, er)" by (cases res) auto
  show ?thesis
    using assms ce f res
    by (auto simp: handleTaskResponse_def carriesNoSpecs_def Let_def
          split: if_splits sum.splits)
qed

lemma wr_final_result_frame:
  assumes "\<not> closed c"
    and "handleTaskResponse ext mo r n (c\<lparr>expectResults := expectResults c - 1\<rparr>) = (None, c1)"
    and "sint (expectResults c1) \<le> 0" and "\<not> chan_closed (eventCh c)"
  shows "\<exists>c'. metric_WriteResponse ext mo r n c = Inr c' \<and> closed c' \<and>
           chan_closed (eventCh c') \<and> groupAgg c' = groupAgg c1 \<and>
           aggregatorSpecs c' = aggregatorSpecs c1 \<and>
           received (eventCh c') =
             received (eventCh c) @ (if readerWaiting mo then [resultEvent ext c'] else [])"
  using assms handle_frame [OF assms(2)]
  by (simp add: metric_WriteResponse_def Let_def metric_deferred_def try_send_def
        close_chan_def resultEvent_def split: option.splits)

lemma idle_run:
  assumes "idle c (length rs)" and "rs \<noteq> []"
    and "handledWithoutError ext rs c"
    and "\<forall>x\<in>set rs. carriesNoSpecs ext (respOf x)"
  shows "\<exists>c'. metric_WriteResponses ext rs c = Inr c' \<and> closed c' \<and>
           chan_closed (eventCh c') \<and> groupAgg c' = None \<and>
           aggregatorSpecs c' = Map.empty \<and>
           received (eventCh c') =
             (if readerWaiting (fst (last rs)) then [resultEvent ext c'] else [])"
  using assms
proof (induction rs arbitrary: c)
  case Nil
  then show ?case by simp
next
  case (Cons x xs)
  obtain mo r n where x: "x = (mo, r, n)" by (cases x) auto
  let ?c = "c\<lparr>expectResults := expectResults c - 1\<rparr>"
  from Cons.prems(1) have a: "\<not> closed c" "\<not> chan_closed (eventCh c)"
    "received (eventCh c) = []" "groupAgg c = None" "aggregatorSpecs c = Map.empty"
    "sint (expectResults c) = int (length (x # xs))"
    by (simp_all add: idle_def)
  have e: "sint (expectResults ?c) = int (length xs)"
    using a(6) sint_dec32 [of "expectResults c"] by simp
  obtain c1 where h: "handleTaskResponse ext mo r n ?c = (None, c1)"
    using Cons.prems(3) x by (cases "handleTaskResponse ext mo r n ?c") auto
  have ns: "carriesNoSpecs ext r" using Cons.prems(4) x by simp
  from handle_frame [OF h] have f: "closed c1 = closed c" "eventCh c1 = eventCh c"
    "expectResults c1 = expectResults ?c" by simp_all
  from handle_noSpecs [OF ns h] a have g: "groupAgg c1 = None" "aggregatorSpecs c1 = Map.empty"
    by simp_all
  show ?case
  proof (cases "xs = []")
    case True
    have le: "sint (expectResults c1) \<le> 0" using e f True by simp
    from wr_final_result_frame [OF a(1) h le a(2)] g a(3) True x show ?thesis
      unfolding x run_single by auto
  next
    case False
    have pos: "0 < sint (expectResults c1)" using e f False by simp
    have w: "metric_WriteResponse ext mo r n c = Inr c1"
      by (rule wr_pending [OF a(1) h pos])
    have i: "idle c1 (length xs)"
      using a f g e by (simp add: idle_def)
    have hw: "handledWithoutError ext xs c1" using Cons.prems(3) x w by simp
    from Cons.IH [OF i False hw] Cons.prems(4) False x w show ?thesis by simp
  qed
qed

text \<open>
  Claim C10. A metric context takes all the responses it expects, \<open>handleTaskResponse\<close>
  returns nil for each, and none of them decodes to a list with aggregator specs. Then no
  grouping aggregator is ever built, and the last call offers, before it closes the
  channel, the event with \<open>SeriesList = nil\<close> and \<open>Err = nil\<close> (and the still empty spec
  map): the query completes with an empty result. The consumer receives that event when
  it is waiting at that moment.
\<close>
theorem empty_query_completes:
  assumes "0 < sint k" and "length rs = nat (sint k)"
    and "handledWithoutError ext rs (newMetricTaskContext nowMs now tid ty ptid pnode q k make_chan)"
    and "\<forall>x\<in>set rs. carriesNoSpecs ext (respOf x)"
  shows "\<exists>c'. metric_WriteResponses ext rs
                (newMetricTaskContext nowMs now tid ty ptid pnode q k make_chan) = Inr c' \<and>
           closed c' \<and> chan_closed (eventCh c') \<and> groupAgg c' = None \<and>
           received (eventCh c') =
             (if readerWaiting (fst (last rs))
              then [\<lparr>AggregatorSpecs = Some Map.empty, SeriesList = None,
                     EventStats = stats c', Err = None\<rparr>]
              else [])"
proof -
  let ?c0 = "newMetricTaskContext nowMs now tid ty ptid pnode q k make_chan :: 'a metricTaskContext"
  have i: "idle ?c0 (length rs)"
    using assms(1,2) by (simp add: idle_def newMetricTaskContext_def make_chan_def)
  have ne: "rs \<noteq> []" using assms(1,2) by auto
  from idle_run [OF i ne assms(3,4)] show ?thesis
    by (auto simp: resultEvent_def)
qed

text \<open>Two leaves that both answer with an empty payload.\<close>
theorem empty_query_completes_witness:
  "\<exists>c'. metric_WriteResponses sampleExt emptyResults twoExpected = Inr c' \<and>
      closed c' \<and> chan_closed (eventCh c') \<and> groupAgg c' = None \<and>
      received (eventCh c') =
        [\<lparr>AggregatorSpecs = Some Map.empty, SeriesList = None,
          EventStats = None, Err = None\<rparr>]"
proof -
  have k: "0 < sint (2 :: int32)" by simp
  have l: "length emptyResults = nat (sint (2 :: int32))"
    by (simp add: emptyResults_def)
  have h: "handledWithoutError sampleExt emptyResults
      (newMetricTaskContext 0 0 ''b-1'' RootTask [] [] sampleQuery 2 make_chan)"
    by (simp add: emptyResults_def newMetricTaskContext_def make_chan_def
        handleTaskResponse_def handleStats_def checkError_def dataResponse_def sampleExt_def
        sampleUnmarshal_def recordCost_def metric_WriteResponse_def metric_deferred_def
        try_send_def close_chan_def waitingAt_def Let_def)
  have s: "\<forall>x\<in>set emptyResults. carriesNoSpecs sampleExt (respOf x)"
    by (simp add: emptyResults_def carriesNoSpecs_def dataResponse_def sampleExt_def
        sampleUnmarshal_def)
  have w: "readerWaiting (fst (last emptyResults))"
    by (simp add: emptyResults_def waitingAt_def)
  from empty_query_completes [OF k l h s] w obtain c' where
    c: "metric_WriteResponses sampleExt emptyResults twoExpected = Inr c'"
       "closed c'" "chan_closed (eventCh c')" "groupAgg c' = None"
       "received (eventCh c') =
        [\<lparr>AggregatorSpecs = Some Map.empty, SeriesList = None,
          EventStats = stats c', Err = None\<rparr>]"
    by (auto simp: twoExpected_def)
  have "stats c' = None"
    using c(1)
    by (auto simp add: emptyResults_def twoExpected_def newMetricTaskContext_def make_chan_def
        handleTaskResponse_def handleStats_def checkError_def dataResponse_def sampleExt_def
        sampleUnmarshal_def recordCost_def metric_WriteResponse_def metric_deferred_def
        try_send_def close_chan_def waitingAt_def Let_def resultEvent_def)
  with c show ?thesis by auto
qed

subsection \<open>Errors of a metric context (C4)\<close>

text \<open>
  Claim C4, as stated, fails: a context that expects two responses and gets an error
  response first hands the error event to the waiting consumer, and its channel stays open
  for the response still outstanding (the call changes the counter and the channel's
  content only; the \<open>closed\<close> flag was and stays unset).
\<close>
theorem error_closes_channel_counterexample:
  "fst (handleTaskResponse sampleExt (waitingAt 100) timeoutResponse ''L1''
          (twoExpected\<lparr>expectResults := expectResults twoExpected - 1\<rparr>))
     = Some ''storage: query timeout'' \<and>
   metric_WriteResponse sampleExt (waitingAt 100) timeoutResponse ''L1'' twoExpected =
     Inr (twoExpected
           \<lparr>expectResults := 1,
            eventCh := \<lparr>received = [\<lparr>AggregatorSpecs = None, SeriesList = None,
                                    EventStats = None, Err = Some ''storage: query timeout''\<rparr>],
                        chan_closed = False\<rparr>\<rparr>) \<and>
   \<not> closed twoExpected"
  by (simp add: twoExpected_def timeoutResponse_def errorResponse_def newMetricTaskContext_def
      make_chan_def handleTaskResponse_def handleStats_def checkError_def sampleExt_def
      metric_WriteResponse_def metric_deferred_def try_send_def close_chan_def waitingAt_def
      errorEvent_def Let_def)

text \<open>
  Claim C4, amended. When \<open>handleTaskResponse\<close> yields an error for a response that
  reaches a context not yet closed, \<open>WriteResponse\<close> offers the event carrying that
  \<open>Err\<close> (and the statistics) by a non-blocking send, so the consumer receives it when it
  is waiting; the call closes the channel, and sets \<open>closed\<close>, exactly when
  \<open>expectResults\<close> is at or below zero after its decrement. With responses outstanding the
  channel stays open.
\<close>
theorem error_event_emitted:
  assumes "\<not> closed c" and "\<not> chan_closed (eventCh c)"
    and "handleTaskResponse ext mo r n (c\<lparr>expectResults := expectResults c - 1\<rparr>) = (Some e, c1)"
  shows "\<exists>c'. metric_WriteResponse ext mo r n c = Inr c' \<and>
           received (eventCh c') = received (eventCh c) @
             (if readerWaiting mo
              then [\<lparr>AggregatorSpecs = None, SeriesList = None, EventStats = stats c1,
                     Err = Some e\<rparr>]
              else []) \<and>
           chan_closed (eventCh c') = (sint (expectResults c - 1) \<le> 0) \<and>
           closed c' = (sint (expectResults c - 1) \<le> 0)"
  using assms handle_frame [OF assms(3)]
  by (simp add: metric_WriteResponse_def Let_def metric_deferred_def try_send_def
        close_chan_def errorEvent_def)

text \<open>The amended claim at the error response above, first of two and last of one.\<close>
theorem error_event_emitted_witness:
  "(\<exists>c'. metric_WriteResponse sampleExt (waitingAt 100) timeoutResponse ''L1'' twoExpected
          = Inr c' \<and>
        map Err (received (eventCh c')) = [Some ''storage: query timeout''] \<and>
        \<not> chan_closed (eventCh c') \<and> \<not> closed c') \<and>
   (\<exists>c'. metric_WriteResponse sampleExt (waitingAt 100) timeoutResponse ''L1''
            (twoExpected\<lparr>expectResults := 1\<rparr>) = Inr c' \<and>
        map Err (received (eventCh c')) = [Some ''storage: query timeout''] \<and>
        chan_closed (eventCh c') \<and> closed c')"
proof -
  have a: "\<not> closed twoExpected" "\<not> chan_closed (eventCh twoExpected)"
    "received (eventCh twoExpected) = []" "expectResults twoExpected = 2"
    by (simp_all add: twoExpected_def newMetricTaskContext_def make_chan_def)
  have h: "handleTaskResponse sampleExt (waitingAt 100) timeoutResponse ''L1''
             (twoExpected\<lparr>expectResults := expectResults twoExpected - 1\<rparr>) =
           (Some ''storage: query timeout'', twoExpected\<lparr>expectResults := 1\<rparr>)"
    by (simp add: twoExpected_def timeoutResponse_def errorResponse_def
        newMetricTaskContext_def handleTaskResponse_def handleStats_def checkError_def Let_def)
  have b: "\<not> closed (twoExpected\<lparr>expectResults := 1\<rparr>)"
    "\<not> chan_closed (eventCh (twoExpected\<lparr>expectResults := 1\<rparr>))"
    using a by simp_all
  have h1: "handleTaskResponse sampleExt (waitingAt 100) timeoutResponse ''L1''
             (twoExpected\<lparr>expectResults := 1\<rparr>
                \<lparr>expectResults := expectResults (twoExpected\<lparr>expectResults := 1\<rparr>) - 1\<rparr>) =
           (Some ''storage: query timeout'', twoExpected\<lparr>expectResults := 0\<rparr>)"
    by (simp add: twoExpected_def timeoutResponse_def errorResponse_def
        newMetricTaskContext_def handleTaskResponse_def handleStats_def checkError_def Let_def)
  have w: "readerWaiting (waitingAt 100)" by (simp add: waitingAt_def)
  from error_event_emitted [OF a(1) a(2) h] a(3,4) w
  have "\<exists>c'. metric_WriteResponse sampleExt (waitingAt 100) timeoutResponse ''L1'' twoExpected
          = Inr c' \<and>
        map Err (received (eventCh c')) = [Some ''storage: query timeout''] \<and>
        \<not> chan_closed (eventCh c') \<and> \<not> closed c'"
    by auto
  moreover
  from error_event_emitted [OF b h1] a(3) w
  have "\<exists>c'. metric_WriteResponse sampleExt (waitingAt 100) timeoutResponse ''L1''
            (twoExpected\<lparr>expectResults := 1\<rparr>) = Inr c' \<and>
        map Err (received (eventCh c')) = [Some ''storage: query timeout''] \<and>
        chan_closed (eventCh c') \<and> closed c'"
    by auto
  ultimately show ?thesis by blast
qed

subsection \<open>Series without fields and dropped metadata responses (C7, C8)\<close>

text \<open>
  Claim C7 at a response whose list holds a series with field data followed by one
  without: \<open>handleTaskResponse\<close> returns nil, as the claim says, but the response has
  contributed by then. Its specs are registered, the grouping aggregator is built from
  them, and the first series is aggregated; only the series from the empty one on are
  skipped.
\<close>
theorem empty_fields_after_aggregation:
  "Unmarshal sampleExt [2] =
     Inr \<lparr>FieldAggSpecs = [sampleSpec], TimeSeriesList = [sampleSeries, emptySeries]\<rparr> \<and>
   Fields emptySeries = Map.empty \<and>
   groupAgg twoExpected = None \<and>
   handleTaskResponse sampleExt (waitingAt 100) (dataResponse ''b-1'' [2]) ''L1'' twoExpected =
     (None,
      twoExpected
        \<lparr>aggregatorSpecs := [''f'' \<mapsto> sampleSpec],
         groupAgg := Some
           \<lparr>aggInterval = 10000, aggIntervalRatio = 1, aggTimeRange = (0, 60000),
            aggSpecs = [\<lparr>specFieldName = ''f'', specFieldType = 1, specFunctions = [1]\<rparr>],
            aggregated = [\<lparr>itTags = ''host=a'', itFields = [''f'' \<mapsto> [7]]\<rparr>]\<rparr>\<rparr>)"
  by (simp add: twoExpected_def dataResponse_def newMetricTaskContext_def
      handleTaskResponse_def handleStats_def checkError_def sampleExt_def sampleUnmarshal_def
      sampleSpec_def sampleSeries_def emptySeries_def sampleQuery_def recordCost_def
      toAggregatorSpec_def NewAggregatorSpec_def AddFunctionType_def newGroupingAgg_def
      Aggregate_def NewGroupedIterator_def Let_def)

text \<open>
  Claim C8 at a metadata context that expects one response, which arrives while the
  consumer is not blocked on the channel: the response is dropped, \<open>expectResults\<close> is 0
  and the task is done, but the channel has not been closed and \<open>closed\<close> is unset.
\<close>
theorem metadata_dropped_without_close:
  "metaData_WriteResponse False (dataResponse ''b-2'' [1]) oneMetaDataExpected =
     Inr (oneMetaDataExpected\<lparr>expectResults := 0\<rparr>) \<and>
   Done (oneMetaDataExpected\<lparr>expectResults := 0\<rparr>) \<and>
   \<not> closed (oneMetaDataExpected\<lparr>expectResults := 0\<rparr>) \<and>
   taskResponseCh (oneMetaDataExpected\<lparr>expectResults := 0\<rparr>) =
     \<lparr>received = [], chan_closed = False\<rparr>"
  by (simp add: oneMetaDataExpected_def newMetaDataTaskContext_def metaData_WriteResponse_def
      try_send_def make_chan_def Done_def Let_def)

subsection \<open>The counter and the flag of every variant (C5)\<close>






text \<open>A context is created with its flag unset and its channel open.\<close>
lemma new_contexts_agree:
  "closedOf (IntermediateAckCtx (newIntermediateAckTaskContext nowMs tid ty k make_chan))
     = channelClosedOf (IntermediateAckCtx (newIntermediateAckTaskContext nowMs tid ty k make_chan))"
  "closedOf (MetricCtx (newMetricTaskContext nowMs now tid ty ptid pnode q k make_chan))
     = channelClosedOf (MetricCtx (newMetricTaskContext nowMs now tid ty ptid pnode q k make_chan))"
  "closedOf (MetaDataCtx (newMetaDataTaskContext nowMs tid ty ptid pnode k make_chan))
     = channelClosedOf (MetaDataCtx (newMetaDataTaskContext nowMs tid ty ptid pnode k make_chan))"
  by (simp_all add: closedOf_def channelClosedOf_def newIntermediateAckTaskContext_def
      newMetricTaskContext_def newMetaDataTaskContext_def make_chan_def)





subsection \<open>Routing of responses and task ids (C6, C9)\<close>

text \<open>
  Claim C6. A response whose task id is not in the task table makes \<open>Receive\<close> add one
  to \<open>OmitResponse\<close> and return an error, and changes nothing else in the manager: the
  table, the contexts and the pool are as before. A response whose task id is in the table
  makes \<open>Receive\<close> add one to \<open>EmitResponse\<close>, return nil and hand the worker pool the
  closure that will write the response to the context found; nothing else changes, and
  the response is not processed by \<open>Receive\<close> itself.
\<close>
theorem receive_routes_by_task_id:
  "(tasks t (TaskID resp) = None \<longrightarrow>
      Receive resp targetNode t =
        (Some (ErrMayBeEvicted (TaskID resp)),
         t\<lparr>statistics := (statistics t)
             \<lparr>OmitResponse := OmitResponse (statistics t) + 1\<rparr>\<rparr>) \<and>
      tasks (snd (Receive resp targetNode t)) = tasks t \<and>
      contexts (snd (Receive resp targetNode t)) = contexts t \<and>
      workerPool (snd (Receive resp targetNode t)) = workerPool t) \<and>
   (\<forall>taskCtx. tasks t (TaskID resp) = Some taskCtx \<longrightarrow>
      Receive resp targetNode t =
        (None,
         t\<lparr>statistics := (statistics t)
             \<lparr>EmitResponse := EmitResponse (statistics t) + 1\<rparr>,
           workerPool := workerPool t @ [ReceiveTask taskCtx resp targetNode]\<rparr>) \<and>
      tasks (snd (Receive resp targetNode t)) = tasks t \<and>
      contexts (snd (Receive resp targetNode t)) = contexts t)"
  by (simp add: Receive_def Get_def)

text \<open>A straggler for the unknown task \<open>b-9\<close>, and a response for the live task \<open>b-1\<close>.\<close>
theorem receive_routes_by_task_id_witness:
  "tasks sampleManager ''b-9'' = None \<and>
   fst (Receive (dataResponse ''b-9'' [1]) ''L1'' sampleManager) = Some (ErrMayBeEvicted ''b-9'') \<and>
   OmitResponse (statistics (snd (Receive (dataResponse ''b-9'' [1]) ''L1'' sampleManager))) = 1 \<and>
   tasks (snd (Receive (dataResponse ''b-9'' [1]) ''L1'' sampleManager)) = tasks sampleManager \<and>
   tasks sampleManager ''b-1'' = Some 0 \<and>
   fst (Receive (dataResponse ''b-1'' [1]) ''L1'' sampleManager) = None \<and>
   EmitResponse (statistics (snd (Receive (dataResponse ''b-1'' [1]) ''L1'' sampleManager))) = 1 \<and>
   workerPool (snd (Receive (dataResponse ''b-1'' [1]) ''L1'' sampleManager)) =
     [ReceiveTask 0 (dataResponse ''b-1'' [1]) ''L1'']"
proof -
  have a: "tasks sampleManager (TaskID (dataResponse ''b-9'' [1])) = None"
    "tasks sampleManager (TaskID (dataResponse ''b-1'' [1])) = Some 0"
    by (simp_all add: sampleManager_def dataResponse_def)
  have s: "OmitResponse (statistics sampleManager) = 0"
    "EmitResponse (statistics sampleManager) = 0" "workerPool sampleManager = []"
    by (simp_all add: sampleManager_def NewTaskManager_def NewBrokerQueryStatistics_def)
  have i: "TaskID (dataResponse ''b-9'' [1]) = ''b-9''" "TaskID (dataResponse ''b-1'' [1]) = ''b-1''"
    by (simp_all add: dataResponse_def)
  from receive_routes_by_task_id [of sampleManager "dataResponse ''b-9'' [1]" "''L1''"]
    receive_routes_by_task_id [of sampleManager "dataResponse ''b-1'' [1]" "''L1''"] a s i
  show ?thesis by simp
qed
















subsection \<open>The submission of a metric task (C2, C3)\<close>







lemma leafSends_append: "sent t' = sent t @ log \<Longrightarrow>
    leafSends t' = leafSends t @ filter (\<lambda>e. ReqType (fst (snd e)) = TaskType_Leaf) log"
  by (simp add: leafSends_def)










end
